theory Spec2Isabelle
  imports Main
begin

section \<open>The domino board of \<open>src/package/domino/board.py\<close>\<close>

subsection \<open>Collaborators of the board: tiles and exceptions\<close>

text \<open>
  Modelled from the spec: the class \<open>Domino\<close> of the package \<open>domino\<close>, which
  \<open>board.py\<close> imports and which is not among the sources. The spec gives it as an
  ordered pair of integer faces \<open>(first, second)\<close>, with \<open>inverted()\<close> returning
  the new value \<open>(second, first)\<close> and the string form \<open>[first|second]\<close>.
\<close>

datatype Domino = Domino (first: int) (second: int)

definition inverted :: "Domino \<Rightarrow> Domino" where
  "inverted d = Domino (second d) (first d)"

text \<open>Python's \<open>str\<close> of an integer: decimal digits, a minus sign for a negative one.\<close>

definition digit_char :: "nat \<Rightarrow> char" where
  "digit_char n = ''0123456789'' ! n"

function str_nat :: "nat \<Rightarrow> string" where
  "str_nat n = (if n < 10 then [digit_char n] else str_nat (n div 10) @ [digit_char (n mod 10)])"
  by pat_completeness auto
termination
  by (relation "measure id") auto

declare str_nat.simps [simp del]

definition str_int :: "int \<Rightarrow> string" where
  "str_int i = (if i < 0 then CHR ''-'' # str_nat (nat (- i)) else str_nat (nat i))"

text \<open>
  Modelled from the spec: \<open>Domino.__str__\<close>, the bracketed face pair
  \<open>[first|second]\<close>.
\<close>

definition str_Domino :: "Domino \<Rightarrow> string" where
  "str_Domino d = ''['' @ str_int (first d) @ ''|'' @ str_int (second d) @ '']''"

text \<open>
  The two exceptions \<open>domino.EmptyBoardException\<close> and
  \<open>domino.EndsMismatchException\<close> that the board raises (the spec calls them
  \<open>EmptyBoardError\<close> and \<open>EndsMismatchError\<close>), each with the message it is
  raised with.
\<close>

datatype error = EmptyBoardException string | EndsMismatchException string

subsection \<open>The deque and the methods of a board\<close>

text \<open>
  \<open>collections.deque\<close> is a list, leftmost element first. \<open>append\<close> adds at the
  right, \<open>appendleft\<close> at the left; indexing counts a negative index from the right
  end and raises \<open>IndexError\<close> (here \<open>None\<close>) out of range.
\<close>

definition deque_append :: "'a list \<Rightarrow> 'a \<Rightarrow> 'a list" where
  "deque_append xs x = xs @ [x]"

definition deque_appendleft :: "'a list \<Rightarrow> 'a \<Rightarrow> 'a list" where
  "deque_appendleft xs x = x # xs"

definition deque_getitem :: "'a list \<Rightarrow> int \<Rightarrow> 'a option" where
  "deque_getitem xs i =
     (let n = int (length xs); j = (if i < 0 then i + n else i)
      in if 0 \<le> j \<and> j < n then Some (xs ! nat j) else None)"

text \<open>\<open>str.join\<close>: the pieces in order, the separator between two neighbours.\<close>

fun join :: "string \<Rightarrow> string list \<Rightarrow> string" where
  "join sep [] = []"
| "join sep [x] = x"
| "join sep (x # y # ys) = x @ sep @ join sep (y # ys)"

text \<open>
  A \<open>Board\<close> object has the one field \<open>board\<close>. A method runs on the object's
  state and either returns a value or raises; it yields that outcome together with
  the state it leaves behind.
\<close>

record Board =
  board :: "Domino list"

type_synonym 'a operation = "Board \<Rightarrow> (error + 'a) \<times> Board"

definition return_m :: "'a \<Rightarrow> 'a operation" where
  "return_m x = (\<lambda>self. (Inr x, self))"

definition raise_m :: "error \<Rightarrow> 'a operation" where
  "raise_m e = (\<lambda>self. (Inl e, self))"

definition bind_m :: "'a operation \<Rightarrow> ('a \<Rightarrow> 'b operation) \<Rightarrow> 'b operation" where
  "bind_m m f = (\<lambda>self. case m self of
                   (Inl e, self') \<Rightarrow> (Inl e, self')
                 | (Inr x, self') \<Rightarrow> f x self')"

text \<open>\<open>__init__\<close>: the board starts with an empty deque.\<close>

definition Board_init :: Board where
  "Board_init = \<lparr>board = []\<rparr>"

text \<open>The two mutations the methods perform on \<open>self.board\<close>.\<close>

definition board_append :: "Domino \<Rightarrow> unit operation" where
  "board_append d = (\<lambda>self. (Inr (), self\<lparr>board := deque_append (board self) d\<rparr>))"

definition board_appendleft :: "Domino \<Rightarrow> unit operation" where
  "board_appendleft d = (\<lambda>self. (Inr (), self\<lparr>board := deque_appendleft (board self) d\<rparr>))"

definition left_end :: "int operation" where
  "left_end = (\<lambda>self.
     case deque_getitem (board self) 0 of
       Some d \<Rightarrow> return_m (first d) self
     | None \<Rightarrow> raise_m (EmptyBoardException
         ''Cannot retrieve the left end of the board because it is empty!'') self)"

definition right_end :: "int operation" where
  "right_end = (\<lambda>self.
     case deque_getitem (board self) (- 1) of
       Some d \<Rightarrow> return_m (second d) self
     | None \<Rightarrow> raise_m (EmptyBoardException
         ''Cannot retrieve the right end of the board because it is empty!'') self)"

text \<open>\<open>__len__\<close>; it also decides the truth value of a board in \<open>if not self\<close>.\<close>

definition len_Board :: "nat operation" where
  "len_Board = (\<lambda>self. return_m (length (board self)) self)"

definition add_left :: "Domino \<Rightarrow> unit operation" where
  "add_left d =
     bind_m len_Board (\<lambda>n.
       if n = 0 then board_append d
       else bind_m left_end (\<lambda>l.
         if first d = l then board_appendleft (inverted d)
         else bind_m left_end (\<lambda>l'.
           if second d = l' then board_appendleft d
           else raise_m (EndsMismatchException
             (str_Domino d @ '' cannot be added to the left of the board - values do not match!'')))))"

definition add_right :: "Domino \<Rightarrow> unit operation" where
  "add_right d =
     bind_m len_Board (\<lambda>n.
       if n = 0 then board_append d
       else bind_m right_end (\<lambda>r.
         if first d = r then board_append d
         else bind_m right_end (\<lambda>r'.
           if second d = r' then board_append (inverted d)
           else raise_m (EndsMismatchException
             (str_Domino d @ '' cannot be added to the right of the board - values do not match!'')))))"

definition str_Board :: "string operation" where
  "str_Board = (\<lambda>self. return_m (join [] (map str_Domino (board self))) self)"

subsection \<open>Sequences of calls\<close>

text \<open>
  A caller that makes one insertion after the other and catches the exception of a
  rejected one, as the session in the docstring of the class does: the outcomes of
  the calls in order, and the board at the end.
\<close>

datatype call = AddLeft Domino | AddRight Domino

fun do_call :: "call \<Rightarrow> unit operation" where
  "do_call (AddLeft d) = add_left d"
| "do_call (AddRight d) = add_right d"

fun run_calls :: "call list \<Rightarrow> Board \<Rightarrow> (error + unit) list \<times> Board" where
  "run_calls [] self = ([], self)"
| "run_calls (c # cs) self =
     (case do_call c self of (r, self') \<Rightarrow>
        (case run_calls cs self' of (rs, self'') \<Rightarrow> (r # rs, self'')))"

definition succeeded :: "(error + unit) list \<Rightarrow> nat" where
  "succeeded rs = length (filter (\<lambda>r. \<not> isl r) rs)"

text \<open>
  The boards that successful insertions build from the empty board.
\<close>

inductive reachable :: "Board \<Rightarrow> bool" where
  reachable_init: "reachable Board_init"
| reachable_left: "reachable b \<Longrightarrow> add_left d b = (Inr (), b') \<Longrightarrow> reachable b'"
| reachable_right: "reachable b \<Longrightarrow> add_right d b = (Inr (), b') \<Longrightarrow> reachable b'"

text \<open>Chain continuity of a tile sequence, as a function that computes.\<close>

fun continuous :: "Domino list \<Rightarrow> bool" where
  "continuous [] = True"
| "continuous [t] = True"
| "continuous (t # u # ts) = (second t = first u \<and> continuous (u # ts))"

section \<open>What the methods compute\<close>

text \<open>Each method in closed form, by the shape of the tile sequence.\<close>

lemma deque_getitem_first: "deque_getitem xs 0 = (case xs of [] \<Rightarrow> None | x # _ \<Rightarrow> Some x)"
  by (cases xs) (simp_all add: deque_getitem_def)

lemma deque_getitem_last: "deque_getitem xs (- 1) = (if xs = [] then None else Some (last xs))"
proof (cases "xs = []")
  case True
  then show ?thesis by (simp add: deque_getitem_def)
next
  case False
  then have "nat (int (length xs) - 1) = length xs - 1" by (cases xs) simp_all
  with False show ?thesis
    by (simp add: deque_getitem_def Let_def last_conv_nth)
qed

lemma left_end_Nil: "board s = [] \<Longrightarrow>
  left_end s = (Inl (EmptyBoardException ''Cannot retrieve the left end of the board because it is empty!''), s)"
  by (simp add: left_end_def deque_getitem_first raise_m_def)

lemma left_end_Cons: "board s = t # ts \<Longrightarrow> left_end s = (Inr (first t), s)"
  by (simp add: left_end_def deque_getitem_first return_m_def)

lemma right_end_Nil: "board s = [] \<Longrightarrow>
  right_end s = (Inl (EmptyBoardException ''Cannot retrieve the right end of the board because it is empty!''), s)"
  by (simp add: right_end_def deque_getitem_last raise_m_def)

lemma right_end_nonempty: "board s \<noteq> [] \<Longrightarrow> right_end s = (Inr (second (last (board s))), s)"
  by (simp add: right_end_def deque_getitem_last return_m_def)

lemma add_left_Nil: "board s = [] \<Longrightarrow> add_left d s = (Inr (), s\<lparr>board := [d]\<rparr>)"
  by (simp add: add_left_def bind_m_def len_Board_def return_m_def board_append_def deque_append_def)

lemma add_left_Cons: "board s = t # ts \<Longrightarrow> add_left d s =
  (if first d = first t then (Inr (), s\<lparr>board := inverted d # t # ts\<rparr>)
   else if second d = first t then (Inr (), s\<lparr>board := d # t # ts\<rparr>)
   else (Inl (EndsMismatchException
     (str_Domino d @ '' cannot be added to the left of the board - values do not match!'')), s))"
  by (simp add: add_left_def bind_m_def len_Board_def return_m_def raise_m_def left_end_Cons
      board_appendleft_def deque_appendleft_def)

lemma add_right_Nil: "board s = [] \<Longrightarrow> add_right d s = (Inr (), s\<lparr>board := [d]\<rparr>)"
  by (simp add: add_right_def bind_m_def len_Board_def return_m_def board_append_def deque_append_def)

lemma add_right_nonempty: "board s \<noteq> [] \<Longrightarrow> add_right d s =
  (if first d = second (last (board s)) then (Inr (), s\<lparr>board := board s @ [d]\<rparr>)
   else if second d = second (last (board s)) then (Inr (), s\<lparr>board := board s @ [inverted d]\<rparr>)
   else (Inl (EndsMismatchException
     (str_Domino d @ '' cannot be added to the right of the board - values do not match!'')), s))"
  by (simp add: add_right_def bind_m_def len_Board_def return_m_def raise_m_def right_end_nonempty
      board_append_def deque_append_def)

lemma continuous_Cons: "continuous (t # ts) = ((ts \<noteq> [] \<longrightarrow> second t = first (hd ts)) \<and> continuous ts)"
  by (cases ts) simp_all

lemma continuous_snoc: "continuous (ts @ [t]) = (continuous ts \<and> (ts \<noteq> [] \<longrightarrow> second (last ts) = first t))"
  by (induction ts rule: continuous.induct) auto

lemma continuous_nth: "continuous ts \<Longrightarrow> Suc i < length ts \<Longrightarrow> second (ts ! i) = first (ts ! Suc i)"
proof (induction ts arbitrary: i rule: continuous.induct)
  case (3 t u ts)
  then show ?case by (cases i) simp_all
qed simp_all

lemma inverted_simps [simp]: "first (inverted d) = second d" "second (inverted d) = first d"
  by (simp_all add: inverted_def)

lemma add_left_continuous: "continuous (board s) \<Longrightarrow> add_left d s = (Inr (), s') \<Longrightarrow> continuous (board s')"
  by (cases "board s") (auto simp: add_left_Nil add_left_Cons split: if_splits)

lemma add_right_continuous: "continuous (board s) \<Longrightarrow> add_right d s = (Inr (), s') \<Longrightarrow> continuous (board s')"
  by (cases "board s = []") (auto simp: add_right_Nil add_right_nonempty continuous_snoc split: if_splits)

lemma reachable_continuous: "reachable b \<Longrightarrow> continuous (board b)"
  by (induction rule: reachable.induct)
     (auto simp: Board_init_def intro: add_left_continuous add_right_continuous)

lemma str_nat_digit: "n < 10 \<Longrightarrow> str_nat n = [digit_char n]"
  by (subst str_nat.simps) simp

lemma add_left_raises:
  assumes "fst (add_left d b) = Inl e"
  shows "(\<exists>m. e = EndsMismatchException m) \<and> snd (add_left d b) = b"
proof (cases "board b")
  case Nil
  with assms show ?thesis by (simp add: add_left_Nil)
next
  case (Cons t ts)
  with assms show ?thesis by (auto simp add: add_left_Cons split: if_splits)
qed

lemma add_right_raises:
  assumes "fst (add_right d b) = Inl e"
  shows "(\<exists>m. e = EndsMismatchException m) \<and> snd (add_right d b) = b"
proof (cases "board b = []")
  case True
  with assms show ?thesis by (simp add: add_right_Nil)
next
  case False
  with assms show ?thesis by (auto simp add: add_right_nonempty split: if_splits)
qed

lemma add_left_length:
  "add_left d s = (r, s') \<Longrightarrow> length (board s') = length (board s) + (if isl r then 0 else 1)"
  by (cases "board s") (auto simp: add_left_Nil add_left_Cons split: if_splits)

lemma add_right_length:
  "add_right d s = (r, s') \<Longrightarrow> length (board s') = length (board s) + (if isl r then 0 else 1)"
  by (cases "board s = []") (auto simp: add_right_Nil add_right_nonempty split: if_splits)

lemma do_call_length:
  "do_call c s = (r, s') \<Longrightarrow> length (board s') = length (board s) + (if isl r then 0 else 1)"
  by (cases c) (simp_all add: add_left_length add_right_length)

lemma run_calls_length:
  "run_calls cs s = (rs, s') \<Longrightarrow> length (board s') = length (board s) + succeeded rs"
proof (induction cs arbitrary: s rs s')
  case Nil
  then show ?case by (simp add: succeeded_def)
next
  case (Cons c cs)
  obtain r s1 where c: "do_call c s = (r, s1)" by (cases "do_call c s")
  obtain rs1 s2 where cs: "run_calls cs s1 = (rs1, s2)" by (cases "run_calls cs s1")
  from Cons.prems c cs have eq: "rs = r # rs1" "s' = s2" by simp_all
  from Cons.IH [OF cs] do_call_length [OF c] eq show ?case
    by (simp add: succeeded_def)
qed

lemma run_scenario:
  "run_calls [AddLeft (Domino 1 2), AddRight (Domino 1 3), AddLeft (Domino 1 3)] Board_init
     = ([Inr (), Inl (EndsMismatchException
          ''[1|3] cannot be added to the right of the board - values do not match!''), Inr ()],
        \<lparr>board = [Domino 3 1, Domino 1 2]\<rparr>)"
  by (simp add: Board_init_def add_left_Nil add_left_Cons add_right_nonempty inverted_def
      str_Domino_def str_int_def str_nat_digit digit_char_def)

lemma join_empty_sep: "join [] xs = concat xs"
  by (induction "[] :: string" xs rule: join.induct) simp_all

lemmas method_defs = add_left_def add_right_def left_end_def right_end_def len_Board_def
  str_Board_def bind_m_def return_m_def raise_m_def board_append_def board_appendleft_def
  deque_append_def deque_appendleft_def deque_getitem_def Board_init_def inverted_def

lemma str_Domino_digits:
  "0 \<le> a \<Longrightarrow> a < 10 \<Longrightarrow> 0 \<le> b \<Longrightarrow> b < 10 \<Longrightarrow>
   str_Domino (Domino a b) = ''['' @ [digit_char (nat a)] @ ''|'' @ [digit_char (nat b)] @ '']''"
  by (simp add: str_Domino_def str_int_def str_nat_digit)

lemma left_end_Inr_iff: "left_end s = (Inr a, s) \<longleftrightarrow> (\<exists>t ts. board s = t # ts \<and> first t = a)"
  by (cases "board s") (simp_all add: left_end_Nil left_end_Cons)

lemma right_end_Inr_iff: "right_end s = (Inr a, s) \<longleftrightarrow> (board s \<noteq> [] \<and> second (last (board s)) = a)"
  by (cases "board s = []") (simp_all add: right_end_Nil right_end_nonempty)

section \<open>Properties of the board\<close>

text \<open>
  C1 (chain continuity). Every board built from the empty board by successful
  \<open>add_left\<close> and \<open>add_right\<close> calls has matching faces at every joint: the
  second face of the tile at position \<open>i\<close> equals the first face of the tile at
  position \<open>i + 1\<close>.
\<close>

theorem chain_continuity:
  "reachable b \<Longrightarrow> Suc i < length (board b) \<Longrightarrow> second (board b ! i) = first (board b ! Suc i)"
  by (rule continuous_nth [OF reachable_continuous])

theorem chain_continuity_witness:
  "reachable \<lparr>board = [Domino 3 1, Domino 1 2]\<rparr>
   \<and> Suc 0 < length (board \<lparr>board = [Domino 3 1, Domino 1 2]\<rparr>)
   \<and> second (board \<lparr>board = [Domino 3 1, Domino 1 2]\<rparr> ! 0)
       = first (board \<lparr>board = [Domino 3 1, Domino 1 2]\<rparr> ! Suc 0)"
proof -
  have r1: "reachable \<lparr>board = [Domino 1 2]\<rparr>"
    by (rule reachable_left [OF reachable_init, of "Domino 1 2"])
       (simp add: add_left_Nil Board_init_def)
  have r2: "reachable \<lparr>board = [Domino 3 1, Domino 1 2]\<rparr>"
    by (rule reachable_left [OF r1, of "Domino 1 3"])
       (simp add: add_left_Cons inverted_def)
  have l: "Suc 0 < length (board \<lparr>board = [Domino 3 1, Domino 1 2]\<rparr>)" by simp
  from chain_continuity [OF r2 l] r2 l show ?thesis by simp
qed

text \<open>
  C2 (\<open>add_left\<close>). On a board without tiles \<open>add_left d\<close> stores \<open>d\<close> as the
  only tile, as given. On a board with left end \<open>L\<close> (the first face of the tile
  at position 0) it puts \<open>inverted d\<close> at position 0 when \<open>first d = L\<close>,
  otherwise \<open>d\<close> itself at position 0 when \<open>second d = L\<close>, and otherwise raises
  the mismatch exception; the first face is tried before the second.
\<close>

theorem add_left_behaviour:
  "add_left d b =
     (if length (board b) = 0 then (Inr (), b\<lparr>board := [d]\<rparr>)
      else if first d = first (board b ! 0) then (Inr (), b\<lparr>board := inverted d # board b\<rparr>)
      else if second d = first (board b ! 0) then (Inr (), b\<lparr>board := d # board b\<rparr>)
      else (Inl (EndsMismatchException
              (str_Domino d @ '' cannot be added to the left of the board - values do not match!'')), b))"
  by (cases "board b") (simp_all add: add_left_Nil add_left_Cons)

theorem add_left_behaviour_witness:
  "add_left (Domino 1 3) \<lparr>board = [Domino 1 2]\<rparr> = (Inr (), \<lparr>board = [Domino 3 1, Domino 1 2]\<rparr>)
   \<and> add_left (Domino 2 3) \<lparr>board = [Domino 3 1]\<rparr> = (Inr (), \<lparr>board = [Domino 2 3, Domino 3 1]\<rparr>)
   \<and> add_left (Domino 5 6) \<lparr>board = []\<rparr> = (Inr (), \<lparr>board = [Domino 5 6]\<rparr>)
   \<and> fst (add_left (Domino 5 6) \<lparr>board = [Domino 1 2]\<rparr>) = Inl (EndsMismatchException
        ''[5|6] cannot be added to the left of the board - values do not match!'')"
  using add_left_behaviour [of "Domino 1 3" "\<lparr>board = [Domino 1 2]\<rparr>"]
    add_left_behaviour [of "Domino 2 3" "\<lparr>board = [Domino 3 1]\<rparr>"]
    add_left_behaviour [of "Domino 5 6" "\<lparr>board = []\<rparr>"]
    add_left_behaviour [of "Domino 5 6" "\<lparr>board = [Domino 1 2]\<rparr>"]
  by (simp add: inverted_def str_Domino_def str_int_def str_nat_digit digit_char_def)

text \<open>
  C3 (\<open>add_right\<close>). On a board without tiles \<open>add_right d\<close> appends \<open>d\<close> as
  given. On a board with right end \<open>R\<close> (the second face of the last tile) it
  appends \<open>d\<close> when \<open>first d = R\<close>, otherwise \<open>inverted d\<close> when
  \<open>second d = R\<close>, and otherwise raises the mismatch exception.
\<close>

theorem add_right_behaviour:
  "add_right d b =
     (if length (board b) = 0 then (Inr (), b\<lparr>board := board b @ [d]\<rparr>)
      else if first d = second (board b ! (length (board b) - 1))
        then (Inr (), b\<lparr>board := board b @ [d]\<rparr>)
      else if second d = second (board b ! (length (board b) - 1))
        then (Inr (), b\<lparr>board := board b @ [inverted d]\<rparr>)
      else (Inl (EndsMismatchException
              (str_Domino d @ '' cannot be added to the right of the board - values do not match!'')), b))"
  by (cases "board b = []") (simp_all add: add_right_Nil add_right_nonempty last_conv_nth)

theorem add_right_behaviour_witness:
  "add_right (Domino 2 3) \<lparr>board = [Domino 1 2]\<rparr> = (Inr (), \<lparr>board = [Domino 1 2, Domino 2 3]\<rparr>)
   \<and> add_right (Domino 3 2) \<lparr>board = [Domino 1 2]\<rparr> = (Inr (), \<lparr>board = [Domino 1 2, Domino 2 3]\<rparr>)
   \<and> add_right (Domino 5 6) \<lparr>board = []\<rparr> = (Inr (), \<lparr>board = [Domino 5 6]\<rparr>)
   \<and> fst (add_right (Domino 1 3) \<lparr>board = [Domino 1 2]\<rparr>) = Inl (EndsMismatchException
        ''[1|3] cannot be added to the right of the board - values do not match!'')"
  using add_right_behaviour [of "Domino 2 3" "\<lparr>board = [Domino 1 2]\<rparr>"]
    add_right_behaviour [of "Domino 3 2" "\<lparr>board = [Domino 1 2]\<rparr>"]
    add_right_behaviour [of "Domino 5 6" "\<lparr>board = []\<rparr>"]
    add_right_behaviour [of "Domino 1 3" "\<lparr>board = [Domino 1 2]\<rparr>"]
  by (simp add: inverted_def str_Domino_def str_int_def str_nat_digit digit_char_def)

text \<open>
  C4 (the ends). On a board with at least one tile \<open>left_end\<close> returns the first
  face of the tile at position 0 and \<open>right_end\<close> the second face of the tile at
  position \<open>n - 1\<close>; each raises the empty-board exception exactly when the board
  has no tile; neither changes the board.
\<close>

theorem ends_of_board:
  "(0 < length (board b) \<longrightarrow>
      left_end b = (Inr (first (board b ! 0)), b)
      \<and> right_end b = (Inr (second (board b ! (length (board b) - 1))), b))
   \<and> ((\<exists>m. fst (left_end b) = Inl (EmptyBoardException m)) \<longleftrightarrow> length (board b) = 0)
   \<and> ((\<exists>m. fst (right_end b) = Inl (EmptyBoardException m)) \<longleftrightarrow> length (board b) = 0)
   \<and> snd (left_end b) = b \<and> snd (right_end b) = b"
proof (cases "board b")
  case Nil
  then show ?thesis by (simp add: left_end_Nil right_end_Nil)
next
  case (Cons t ts)
  then have ne: "board b \<noteq> []" by simp
  from Cons show ?thesis
    by (simp add: left_end_Cons right_end_nonempty [OF ne] last_conv_nth)
qed

theorem ends_of_board_witness:
  "0 < length (board \<lparr>board = [Domino 3 1, Domino 1 2]\<rparr>)
   \<and> left_end \<lparr>board = [Domino 3 1, Domino 1 2]\<rparr> = (Inr 3, \<lparr>board = [Domino 3 1, Domino 1 2]\<rparr>)
   \<and> right_end \<lparr>board = [Domino 3 1, Domino 1 2]\<rparr> = (Inr 2, \<lparr>board = [Domino 3 1, Domino 1 2]\<rparr>)
   \<and> (\<exists>m. fst (left_end \<lparr>board = []\<rparr>) = Inl (EmptyBoardException m))
   \<and> (\<exists>m. fst (right_end \<lparr>board = []\<rparr>) = Inl (EmptyBoardException m))"
  using ends_of_board [of "\<lparr>board = [Domino 3 1, Domino 1 2]\<rparr>"]
    ends_of_board [of "\<lparr>board = []\<rparr>"]
  by simp

text \<open>
  C5 (atomic rejection). When \<open>add_left\<close> or \<open>add_right\<close> raises, what it raises
  is the mismatch exception and the board it leaves is the board it found, so that
  the length, both ends and the rendering are what they were; a call that changes
  the board has succeeded.
\<close>

theorem atomic_rejection:
  "(fst (add_left d b) = Inl e \<longrightarrow>
      (\<exists>m. e = EndsMismatchException m) \<and> snd (add_left d b) = b
      \<and> len_Board (snd (add_left d b)) = len_Board b
      \<and> left_end (snd (add_left d b)) = left_end b
      \<and> right_end (snd (add_left d b)) = right_end b
      \<and> str_Board (snd (add_left d b)) = str_Board b)
   \<and> (fst (add_right d b) = Inl e \<longrightarrow>
      (\<exists>m. e = EndsMismatchException m) \<and> snd (add_right d b) = b
      \<and> len_Board (snd (add_right d b)) = len_Board b
      \<and> left_end (snd (add_right d b)) = left_end b
      \<and> right_end (snd (add_right d b)) = right_end b
      \<and> str_Board (snd (add_right d b)) = str_Board b)
   \<and> (snd (add_left d b) \<noteq> b \<longrightarrow> fst (add_left d b) = Inr ())
   \<and> (snd (add_right d b) \<noteq> b \<longrightarrow> fst (add_right d b) = Inr ())"
  (is "?L \<and> ?R \<and> ?L' \<and> ?R'")
proof -
  have l: ?L
  proof
    assume "fst (add_left d b) = Inl e"
    from add_left_raises [OF this]
    show "(\<exists>m. e = EndsMismatchException m) \<and> snd (add_left d b) = b
      \<and> len_Board (snd (add_left d b)) = len_Board b
      \<and> left_end (snd (add_left d b)) = left_end b
      \<and> right_end (snd (add_left d b)) = right_end b
      \<and> str_Board (snd (add_left d b)) = str_Board b"
      by simp
  qed
  have r: ?R
  proof
    assume "fst (add_right d b) = Inl e"
    from add_right_raises [OF this]
    show "(\<exists>m. e = EndsMismatchException m) \<and> snd (add_right d b) = b
      \<and> len_Board (snd (add_right d b)) = len_Board b
      \<and> left_end (snd (add_right d b)) = left_end b
      \<and> right_end (snd (add_right d b)) = right_end b
      \<and> str_Board (snd (add_right d b)) = str_Board b"
      by simp
  qed
  have l': ?L'
  proof (cases "fst (add_left d b)")
    case (Inl x)
    from add_left_raises [OF this] show ?thesis by simp
  next
    case (Inr u)
    then show ?thesis by simp
  qed
  have r': ?R'
  proof (cases "fst (add_right d b)")
    case (Inl x)
    from add_right_raises [OF this] show ?thesis by simp
  next
    case (Inr u)
    then show ?thesis by simp
  qed
  show ?thesis by (rule conjI [OF l conjI [OF r conjI [OF l' r']]])
qed

theorem atomic_rejection_witness:
  "fst (add_right (Domino 1 3) \<lparr>board = [Domino 1 2]\<rparr>) = Inl (EndsMismatchException
        ''[1|3] cannot be added to the right of the board - values do not match!'')
   \<and> snd (add_right (Domino 1 3) \<lparr>board = [Domino 1 2]\<rparr>) = \<lparr>board = [Domino 1 2]\<rparr>
   \<and> fst (add_left (Domino 5 6) \<lparr>board = [Domino 1 2]\<rparr>) = Inl (EndsMismatchException
        ''[5|6] cannot be added to the left of the board - values do not match!'')
   \<and> snd (add_left (Domino 5 6) \<lparr>board = [Domino 1 2]\<rparr>) = \<lparr>board = [Domino 1 2]\<rparr>
   \<and> snd (add_left (Domino 1 3) \<lparr>board = [Domino 1 2]\<rparr>) \<noteq> \<lparr>board = [Domino 1 2]\<rparr>
   \<and> fst (add_left (Domino 1 3) \<lparr>board = [Domino 1 2]\<rparr>) = Inr ()
   \<and> snd (add_right (Domino 2 3) \<lparr>board = [Domino 1 2]\<rparr>) \<noteq> \<lparr>board = [Domino 1 2]\<rparr>
   \<and> fst (add_right (Domino 2 3) \<lparr>board = [Domino 1 2]\<rparr>) = Inr ()"
proof -
  have r: "fst (add_right (Domino 1 3) \<lparr>board = [Domino 1 2]\<rparr>) = Inl (EndsMismatchException
        ''[1|3] cannot be added to the right of the board - values do not match!'')"
    by (simp add: add_right_nonempty str_Domino_def str_int_def str_nat_digit digit_char_def)
  have l: "fst (add_left (Domino 5 6) \<lparr>board = [Domino 1 2]\<rparr>) = Inl (EndsMismatchException
        ''[5|6] cannot be added to the left of the board - values do not match!'')"
    by (simp add: add_left_Cons str_Domino_def str_int_def str_nat_digit digit_char_def)
  have cl: "snd (add_left (Domino 1 3) \<lparr>board = [Domino 1 2]\<rparr>) \<noteq> \<lparr>board = [Domino 1 2]\<rparr>"
    by (simp add: add_left_Cons)
  have cr: "snd (add_right (Domino 2 3) \<lparr>board = [Domino 1 2]\<rparr>) \<noteq> \<lparr>board = [Domino 1 2]\<rparr>"
    by (simp add: add_right_nonempty)
  note r2 = atomic_rejection [THEN conjunct2, THEN conjunct1, THEN mp, OF r, THEN conjunct2, THEN conjunct1]
  note l2 = atomic_rejection [THEN conjunct1, THEN mp, OF l, THEN conjunct2, THEN conjunct1]
  note l3 = atomic_rejection [THEN conjunct2, THEN conjunct2, THEN conjunct1, THEN mp, OF cl]
  note r3 = atomic_rejection [THEN conjunct2, THEN conjunct2, THEN conjunct2, THEN mp, OF cr]
  show ?thesis
    by (rule conjI [OF r conjI [OF r2 conjI [OF l conjI [OF l2
          conjI [OF cl conjI [OF l3 conjI [OF cr r3]]]]]]])
qed

text \<open>
  C6 (length). \<open>__len__\<close> always returns, and returns the number of tiles: 0 on
  the board just created, and after any sequence of \<open>add_left\<close> and \<open>add_right\<close>
  calls from there the number of calls that succeeded. A call that succeeds adds
  one tile, a call that raises adds none.
\<close>

theorem length_counts_successes:
  "len_Board b = (Inr (length (board b)), b)
   \<and> len_Board Board_init = (Inr 0, Board_init)
   \<and> (run_calls cs Board_init = (rs, b') \<longrightarrow> len_Board b' = (Inr (succeeded rs), b'))
   \<and> (do_call c b = (Inr (), b'') \<longrightarrow> length (board b'') = length (board b) + 1)
   \<and> (do_call c b = (Inl e, b'') \<longrightarrow> length (board b'') = length (board b))"
proof -
  have 1: "len_Board b = (Inr (length (board b)), b)" for b
    by (simp add: len_Board_def return_m_def)
  have 2: "len_Board Board_init = (Inr 0, Board_init)"
    by (simp add: 1 Board_init_def)
  have 3: "run_calls cs Board_init = (rs, b') \<longrightarrow> len_Board b' = (Inr (succeeded rs), b')"
    using run_calls_length [of cs Board_init rs b'] by (simp add: 1 Board_init_def)
  have 4: "do_call c b = (Inr (), b'') \<longrightarrow> length (board b'') = length (board b) + 1"
    using do_call_length [of c b "Inr ()" b''] by simp
  have 5: "do_call c b = (Inl e, b'') \<longrightarrow> length (board b'') = length (board b)"
    using do_call_length [of c b "Inl e" b''] by simp
  show ?thesis by (rule conjI [OF 1 conjI [OF 2 conjI [OF 3 conjI [OF 4 5]]]])
qed

theorem length_counts_successes_witness:
  "run_calls [AddLeft (Domino 1 2), AddRight (Domino 1 3), AddLeft (Domino 1 3)] Board_init
     = ([Inr (), Inl (EndsMismatchException
          ''[1|3] cannot be added to the right of the board - values do not match!''), Inr ()],
        \<lparr>board = [Domino 3 1, Domino 1 2]\<rparr>)
   \<and> len_Board \<lparr>board = [Domino 3 1, Domino 1 2]\<rparr> = (Inr 2, \<lparr>board = [Domino 3 1, Domino 1 2]\<rparr>)
   \<and> do_call (AddLeft (Domino 1 3)) \<lparr>board = [Domino 1 2]\<rparr>
       = (Inr (), \<lparr>board = [Domino 3 1, Domino 1 2]\<rparr>)
   \<and> length (board \<lparr>board = [Domino 3 1, Domino 1 2]\<rparr>)
       = length (board \<lparr>board = [Domino 1 2]\<rparr>) + 1
   \<and> do_call (AddRight (Domino 1 3)) \<lparr>board = [Domino 1 2]\<rparr>
       = (Inl (EndsMismatchException
            ''[1|3] cannot be added to the right of the board - values do not match!''),
          \<lparr>board = [Domino 1 2]\<rparr>)
   \<and> length (board \<lparr>board = [Domino 1 2]\<rparr>) = length (board \<lparr>board = [Domino 1 2]\<rparr>)"
proof -
  have s: "succeeded [Inr (), Inl (EndsMismatchException
          ''[1|3] cannot be added to the right of the board - values do not match!''), Inr ()] = 2"
    by (simp add: succeeded_def)
  have ok: "do_call (AddLeft (Domino 1 3)) \<lparr>board = [Domino 1 2]\<rparr>
       = (Inr (), \<lparr>board = [Domino 3 1, Domino 1 2]\<rparr>)"
    by (simp add: add_left_Cons inverted_def)
  have ko: "do_call (AddRight (Domino 1 3)) \<lparr>board = [Domino 1 2]\<rparr>
       = (Inl (EndsMismatchException
            ''[1|3] cannot be added to the right of the board - values do not match!''),
          \<lparr>board = [Domino 1 2]\<rparr>)"
    by (simp add: add_right_nonempty str_Domino_digits digit_char_def)
  note l = length_counts_successes [THEN conjunct2, THEN conjunct2, THEN conjunct1, THEN mp,
      OF run_scenario]
  note grows = length_counts_successes [THEN conjunct2, THEN conjunct2, THEN conjunct2,
      THEN conjunct1, THEN mp, OF ok]
  note stays = length_counts_successes [THEN conjunct2, THEN conjunct2, THEN conjunct2,
      THEN conjunct2, THEN mp, OF ko]
  from l s have n: "len_Board \<lparr>board = [Domino 3 1, Domino 1 2]\<rparr>
      = (Inr 2, \<lparr>board = [Domino 3 1, Domino 1 2]\<rparr>)"
    by simp
  show ?thesis
    by (rule conjI [OF run_scenario conjI [OF n conjI [OF ok conjI [OF grows conjI [OF ko stays]]]]])
qed

text \<open>
  C7 (rendering). \<open>__str__\<close> returns the bracketed forms \<open>[first|second]\<close> of the
  tiles, left to right in board order, with nothing between them; for the board
  without tiles it returns the empty text.
\<close>

theorem render_concatenates:
  "str_Board b =
     (Inr (concat (map (\<lambda>t. ''['' @ str_int (first t) @ ''|'' @ str_int (second t) @ '']'')
                       (board b))), b)
   \<and> str_Board Board_init = (Inr [], Board_init)"
proof -
  have "str_Domino = (\<lambda>t. ''['' @ str_int (first t) @ ''|'' @ str_int (second t) @ '']'')"
    by (rule ext) (simp add: str_Domino_def)
  then have "join [] (map str_Domino ts)
      = concat (map (\<lambda>t. ''['' @ str_int (first t) @ ''|'' @ str_int (second t) @ '']'') ts)" for ts
    by (simp only: join_empty_sep)
  then show ?thesis
    by (simp add: str_Board_def return_m_def Board_init_def)
qed

theorem render_concatenates_witness:
  "str_Board \<lparr>board = [Domino 3 1, Domino 1 2]\<rparr>
     = (Inr ''[3|1][1|2]'', \<lparr>board = [Domino 3 1, Domino 1 2]\<rparr>)"
  using render_concatenates [of "\<lparr>board = [Domino 3 1, Domino 1 2]\<rparr>"]
  by (simp add: str_int_def str_nat_digit digit_char_def)

text \<open>
  C8 (the session of the docstring). From the empty board, \<open>add_left\<close> of
  \<open>Domino(1,2)\<close> succeeds and gives \<open>[1|2]\<close> with ends 1 and 2 and length 1;
  \<open>add_right\<close> of \<open>Domino(1,3)\<close> then raises the mismatch exception and leaves the
  board as it is; \<open>add_left\<close> of \<open>Domino(1,3)\<close> then succeeds and gives
  \<open>[3|1][1|2]\<close> with ends 3 and 2 and length 2.
\<close>

theorem docstring_scenario:
  "add_left (Domino 1 2) Board_init = (Inr (), \<lparr>board = [Domino 1 2]\<rparr>)
   \<and> str_Board \<lparr>board = [Domino 1 2]\<rparr> = (Inr ''[1|2]'', \<lparr>board = [Domino 1 2]\<rparr>)
   \<and> left_end \<lparr>board = [Domino 1 2]\<rparr> = (Inr 1, \<lparr>board = [Domino 1 2]\<rparr>)
   \<and> right_end \<lparr>board = [Domino 1 2]\<rparr> = (Inr 2, \<lparr>board = [Domino 1 2]\<rparr>)
   \<and> len_Board \<lparr>board = [Domino 1 2]\<rparr> = (Inr 1, \<lparr>board = [Domino 1 2]\<rparr>)
   \<and> add_right (Domino 1 3) \<lparr>board = [Domino 1 2]\<rparr>
       = (Inl (EndsMismatchException
            ''[1|3] cannot be added to the right of the board - values do not match!''),
          \<lparr>board = [Domino 1 2]\<rparr>)
   \<and> add_left (Domino 1 3) \<lparr>board = [Domino 1 2]\<rparr>
       = (Inr (), \<lparr>board = [Domino 3 1, Domino 1 2]\<rparr>)
   \<and> str_Board \<lparr>board = [Domino 3 1, Domino 1 2]\<rparr>
       = (Inr ''[3|1][1|2]'', \<lparr>board = [Domino 3 1, Domino 1 2]\<rparr>)
   \<and> left_end \<lparr>board = [Domino 3 1, Domino 1 2]\<rparr> = (Inr 3, \<lparr>board = [Domino 3 1, Domino 1 2]\<rparr>)
   \<and> right_end \<lparr>board = [Domino 3 1, Domino 1 2]\<rparr> = (Inr 2, \<lparr>board = [Domino 3 1, Domino 1 2]\<rparr>)
   \<and> len_Board \<lparr>board = [Domino 3 1, Domino 1 2]\<rparr> = (Inr 2, \<lparr>board = [Domino 3 1, Domino 1 2]\<rparr>)"
proof -
  have a1: "add_left (Domino 1 2) Board_init = (Inr (), \<lparr>board = [Domino 1 2]\<rparr>)"
    by (simp add: method_defs)
  have s1: "str_Board \<lparr>board = [Domino 1 2]\<rparr> = (Inr ''[1|2]'', \<lparr>board = [Domino 1 2]\<rparr>)"
    by (simp add: method_defs str_Domino_digits digit_char_def)
  have l1: "left_end \<lparr>board = [Domino 1 2]\<rparr> = (Inr 1, \<lparr>board = [Domino 1 2]\<rparr>)"
    by (simp add: method_defs)
  have r1: "right_end \<lparr>board = [Domino 1 2]\<rparr> = (Inr 2, \<lparr>board = [Domino 1 2]\<rparr>)"
    by (simp add: method_defs)
  have n1: "len_Board \<lparr>board = [Domino 1 2]\<rparr> = (Inr 1, \<lparr>board = [Domino 1 2]\<rparr>)"
    by (simp add: method_defs)
  have a2: "add_right (Domino 1 3) \<lparr>board = [Domino 1 2]\<rparr>
       = (Inl (EndsMismatchException
            ''[1|3] cannot be added to the right of the board - values do not match!''),
          \<lparr>board = [Domino 1 2]\<rparr>)"
    by (simp add: method_defs str_Domino_digits digit_char_def)
  have a3: "add_left (Domino 1 3) \<lparr>board = [Domino 1 2]\<rparr>
       = (Inr (), \<lparr>board = [Domino 3 1, Domino 1 2]\<rparr>)"
    by (simp add: method_defs)
  have s2: "str_Board \<lparr>board = [Domino 3 1, Domino 1 2]\<rparr>
       = (Inr ''[3|1][1|2]'', \<lparr>board = [Domino 3 1, Domino 1 2]\<rparr>)"
    by (simp add: method_defs str_Domino_digits digit_char_def)
  have l2: "left_end \<lparr>board = [Domino 3 1, Domino 1 2]\<rparr> = (Inr 3, \<lparr>board = [Domino 3 1, Domino 1 2]\<rparr>)"
    by (simp add: method_defs)
  have r2: "right_end \<lparr>board = [Domino 3 1, Domino 1 2]\<rparr> = (Inr 2, \<lparr>board = [Domino 3 1, Domino 1 2]\<rparr>)"
    by (simp add: method_defs)
  have n2: "len_Board \<lparr>board = [Domino 3 1, Domino 1 2]\<rparr> = (Inr 2, \<lparr>board = [Domino 3 1, Domino 1 2]\<rparr>)"
    by (simp add: method_defs)
  show ?thesis
    by (intro conjI) (fact a1 s1 l1 r1 n1 a2 a3 s2 l2 r2 n2)+
qed

text \<open>
  C9 (orientation). Adding the tile \<open>(a, b)\<close> at the left of a board whose left
  end is \<open>a\<close> succeeds and makes \<open>b\<close> the left end; adding it at the left of a
  board whose left end is \<open>b\<close> succeeds and makes \<open>a\<close> the left end. The same
  holds for \<open>add_right\<close> and the right end.
\<close>

theorem orientation_round_trip:
  "(left_end s = (Inr a, s) \<longrightarrow>
      fst (add_left (Domino a b) s) = Inr ()
      \<and> fst (left_end (snd (add_left (Domino a b) s))) = Inr b)
   \<and> (left_end s = (Inr b, s) \<longrightarrow>
      fst (add_left (Domino a b) s) = Inr ()
      \<and> fst (left_end (snd (add_left (Domino a b) s))) = Inr a)
   \<and> (right_end s = (Inr a, s) \<longrightarrow>
      fst (add_right (Domino a b) s) = Inr ()
      \<and> fst (right_end (snd (add_right (Domino a b) s))) = Inr b)
   \<and> (right_end s = (Inr b, s) \<longrightarrow>
      fst (add_right (Domino a b) s) = Inr ()
      \<and> fst (right_end (snd (add_right (Domino a b) s))) = Inr a)"
  (is "?A \<and> ?B \<and> ?C \<and> ?D")
proof -
  have A: ?A
    by (auto simp: left_end_Inr_iff add_left_Cons left_end_Cons inverted_def)
  have B: ?B
    by (auto simp: left_end_Inr_iff add_left_Cons left_end_Cons inverted_def)
  have C: ?C
    by (auto simp: right_end_Inr_iff add_right_nonempty right_end_nonempty inverted_def)
  have D: ?D
    by (auto simp: right_end_Inr_iff add_right_nonempty right_end_nonempty inverted_def)
  show ?thesis by (rule conjI [OF A conjI [OF B conjI [OF C D]]])
qed

theorem orientation_round_trip_witness:
  "left_end \<lparr>board = [Domino 1 2]\<rparr> = (Inr 1, \<lparr>board = [Domino 1 2]\<rparr>)
   \<and> fst (left_end (snd (add_left (Domino 1 3) \<lparr>board = [Domino 1 2]\<rparr>))) = Inr 3
   \<and> fst (left_end (snd (add_left (Domino 3 1) \<lparr>board = [Domino 1 2]\<rparr>))) = Inr 3
   \<and> right_end \<lparr>board = [Domino 1 2]\<rparr> = (Inr 2, \<lparr>board = [Domino 1 2]\<rparr>)
   \<and> fst (right_end (snd (add_right (Domino 2 5) \<lparr>board = [Domino 1 2]\<rparr>))) = Inr 5
   \<and> fst (right_end (snd (add_right (Domino 5 2) \<lparr>board = [Domino 1 2]\<rparr>))) = Inr 5"
proof -
  have l: "left_end \<lparr>board = [Domino 1 2]\<rparr> = (Inr 1, \<lparr>board = [Domino 1 2]\<rparr>)"
    by (simp add: left_end_Cons)
  have r: "right_end \<lparr>board = [Domino 1 2]\<rparr> = (Inr 2, \<lparr>board = [Domino 1 2]\<rparr>)"
    by (simp add: right_end_nonempty)
  note A = orientation_round_trip [THEN conjunct1, THEN mp, OF l, THEN conjunct2, of 3]
  note B = orientation_round_trip [THEN conjunct2, THEN conjunct1, THEN mp, OF l, THEN conjunct2, of 3]
  note C = orientation_round_trip [THEN conjunct2, THEN conjunct2, THEN conjunct1, THEN mp, OF r,
      THEN conjunct2, of 5]
  note D = orientation_round_trip [THEN conjunct2, THEN conjunct2, THEN conjunct2, THEN mp, OF r,
      THEN conjunct2, of 5]
  show ?thesis by (rule conjI [OF l conjI [OF A conjI [OF B conjI [OF r conjI [OF C D]]]]])
qed

text \<open>
  C10 (frame). A successful \<open>add_left\<close> on a board with tiles keeps the right end,
  adds one tile and moves every tile that was there one position to the right; a
  successful \<open>add_right\<close> on a board with tiles keeps the left end, adds one tile
  and keeps every tile that was there at its position.
\<close>

theorem insertion_frame:
  "(0 < length (board s) \<longrightarrow> add_left d s = (Inr (), s') \<longrightarrow>
      fst (right_end s') = fst (right_end s)
      \<and> length (board s') = length (board s) + 1
      \<and> (\<forall>i < length (board s). board s' ! (i + 1) = board s ! i))
   \<and> (0 < length (board s) \<longrightarrow> add_right d s = (Inr (), s'') \<longrightarrow>
      fst (left_end s'') = fst (left_end s)
      \<and> length (board s'') = length (board s) + 1
      \<and> (\<forall>i < length (board s). board s'' ! i = board s ! i))"
  (is "?L \<and> ?R")
proof -
  have L: ?L
  proof (cases "board s")
    case Nil
    then show ?thesis by simp
  next
    case (Cons t ts)
    then have ne: "board s \<noteq> []" by simp
    show ?thesis
    proof (intro impI)
      assume "add_left d s = (Inr (), s')"
      with Cons have "board s' = inverted d # board s \<or> board s' = d # board s"
        by (auto simp: add_left_Cons split: if_splits)
      then show "fst (right_end s') = fst (right_end s)
        \<and> length (board s') = length (board s) + 1
        \<and> (\<forall>i < length (board s). board s' ! (i + 1) = board s ! i)"
        using ne by (auto simp: right_end_nonempty)
    qed
  qed
  have R: ?R
  proof (cases "board s")
    case Nil
    then show ?thesis by simp
  next
    case (Cons t ts)
    then have ne: "board s \<noteq> []" by simp
    show ?thesis
    proof (intro impI)
      assume "add_right d s = (Inr (), s'')"
      with ne have "board s'' = board s @ [d] \<or> board s'' = board s @ [inverted d]"
        by (auto simp: add_right_nonempty split: if_splits)
      then obtain x where x: "board s'' = board s @ [x]" by blast
      with Cons have "board s'' = t # (ts @ [x])" by simp
      then have "left_end s'' = (Inr (first t), s'')" by (rule left_end_Cons)
      with left_end_Cons [OF Cons] have "fst (left_end s'') = fst (left_end s)" by simp
      moreover have "length (board s'') = length (board s) + 1" by (simp add: x)
      moreover have "\<forall>i < length (board s). board s'' ! i = board s ! i"
        by (simp add: x nth_append)
      ultimately show "fst (left_end s'') = fst (left_end s)
        \<and> length (board s'') = length (board s) + 1
        \<and> (\<forall>i < length (board s). board s'' ! i = board s ! i)"
        by (intro conjI)
    qed
  qed
  show ?thesis by (rule conjI [OF L R])
qed

theorem insertion_frame_witness:
  "0 < length (board \<lparr>board = [Domino 1 2]\<rparr>)
   \<and> add_left (Domino 1 3) \<lparr>board = [Domino 1 2]\<rparr> = (Inr (), \<lparr>board = [Domino 3 1, Domino 1 2]\<rparr>)
   \<and> fst (right_end \<lparr>board = [Domino 3 1, Domino 1 2]\<rparr>) = fst (right_end \<lparr>board = [Domino 1 2]\<rparr>)
   \<and> [Domino 3 1, Domino 1 2] ! 1 = [Domino 1 2] ! 0
   \<and> add_right (Domino 3 2) \<lparr>board = [Domino 1 2]\<rparr> = (Inr (), \<lparr>board = [Domino 1 2, Domino 2 3]\<rparr>)
   \<and> fst (left_end \<lparr>board = [Domino 1 2, Domino 2 3]\<rparr>) = fst (left_end \<lparr>board = [Domino 1 2]\<rparr>)
   \<and> [Domino 1 2, Domino 2 3] ! 0 = [Domino 1 2] ! 0"
proof -
  have n: "0 < length (board \<lparr>board = [Domino 1 2]\<rparr>)" by simp
  have l: "add_left (Domino 1 3) \<lparr>board = [Domino 1 2]\<rparr> = (Inr (), \<lparr>board = [Domino 3 1, Domino 1 2]\<rparr>)"
    by (simp add: add_left_Cons inverted_def)
  have r: "add_right (Domino 3 2) \<lparr>board = [Domino 1 2]\<rparr> = (Inr (), \<lparr>board = [Domino 1 2, Domino 2 3]\<rparr>)"
    by (simp add: add_right_nonempty inverted_def)
  note L = insertion_frame [THEN conjunct1, THEN mp, OF n, THEN mp, OF l]
  note R = insertion_frame [THEN conjunct2, THEN mp, OF n, THEN mp, OF r]
  from L have L1: "fst (right_end \<lparr>board = [Domino 3 1, Domino 1 2]\<rparr>) = fst (right_end \<lparr>board = [Domino 1 2]\<rparr>)"
    by (rule conjunct1)
  from L have L2: "[Domino 3 1, Domino 1 2] ! 1 = [Domino 1 2] ! 0" by simp
  from R have R1: "fst (left_end \<lparr>board = [Domino 1 2, Domino 2 3]\<rparr>) = fst (left_end \<lparr>board = [Domino 1 2]\<rparr>)"
    by (rule conjunct1)
  from R have R2: "[Domino 1 2, Domino 2 3] ! 0 = [Domino 1 2] ! 0" by simp
  show ?thesis
    by (rule conjI [OF n conjI [OF l conjI [OF L1 conjI [OF L2 conjI [OF r conjI [OF R1 R2]]]]]])
qed

end
